theory Spec2Isabelle
  imports Complex_Main
begin

section \<open>Numbers\<close>

text \<open>
  Python integers are unbounded; counters that start at 0 and only grow are \<open>nat\<close>.
  Floating-point values are idealised: a finite float is the rational number it denotes,
  so comparisons are exact, and sums, differences and quotients are the exact ones. The
  two infinities and not-a-number are kept, because \<open>run\<close> starts the best score at an
  infinity and the comparison of \<open>save_model\<close> has to be read on them. Where the code
  rounds a quotient of doubles to four decimals, the exact quotient can lie on a tie
  that the double does not lie on; that rounding is not fixed by the model but taken as
  a function the trainer calls (\<open>round_score\<close> below).
\<close>

datatype pyfloat = Fin rat | PInf | NInf | NaN

fun fl_less :: "pyfloat \<Rightarrow> pyfloat \<Rightarrow> bool" where
  "fl_less NaN _ = False"
| "fl_less _ NaN = False"
| "fl_less (Fin a) (Fin b) = (a < b)"
| "fl_less (Fin a) PInf = True"
| "fl_less (Fin a) NInf = False"
| "fl_less PInf _ = False"
| "fl_less NInf NInf = False"
| "fl_less NInf _ = True"

definition fl_greater :: "pyfloat \<Rightarrow> pyfloat \<Rightarrow> bool" where
  "fl_greater a b = fl_less b a"

fun fl_neg :: "pyfloat \<Rightarrow> pyfloat" where
  "fl_neg (Fin a) = Fin (- a)"
| "fl_neg PInf = NInf"
| "fl_neg NInf = PInf"
| "fl_neg NaN = NaN"

text \<open>
  \<open>np.round(x, 0)\<close> rounds the value of a float to the nearest integer and sends a tie
  to the even neighbour. \<open>round(x, 4)\<close> on the Python float that \<open>.item()\<close> returns
  rounds the value of that float to the nearest multiple of 1/10000, a tie to the even
  neighbour; this is the rounding of the validation loss.
\<close>

definition rint :: "rat \<Rightarrow> int" where
  "rint x =
     (let f = \<lfloor>x\<rfloor>; d = x - of_int f
      in if d < 1 / 2 then f
         else if 1 / 2 < d then f + 1
         else if even f then f else f + 1)"

definition round4 :: "rat \<Rightarrow> rat" where
  "round4 x = of_int (rint (x * 10000)) / 10000"

section \<open>Errors and name resolution\<close>

text \<open>
  Every way a method of \<open>Train\<close> can leave other than by returning is a value of
  \<open>error\<close>. \<open>Diverges\<close> stands for a loop that never exits. \<open>ShapeMismatch\<close> stands
  for what numpy does with an array of a rank the branch is not written for (an exception
  or a broadcast, depending on the shapes); the theorems below are about inputs on which
  it does not occur.
\<close>

datatype error =
    NameError | UnboundLocalError | AttributeError | KeyError | TypeError
  | ValueError | IndexError | AxisError | ZeroDivisionError | OSError | ShapeMismatch
  | Diverges

text \<open>
  The names bound at module level in \<open>train.py\<close> are its imports (lines 1-18) and
  the class \<open>Train\<close>: SummaryWriter, DataParallel, tqdm, ResNet, save_state, load_state,
  separate_bn_param, optim, ReduceLROnPlateau, CustomDataLoader, GenderHead, AgeHead,
  RaceHead, torch, path, np, mean_absolute_error, EarlyStop, log_softmax, kl_div, Train.
  The methods read three names that are bound nowhere. Each is modelled as the binding
  it has, which is none; the code that reads it is translated for either answer.

  \<^item> \<open>evaluate\<close>, called as a function at line 253 of \<open>evaluate_recognition\<close>: not a
    local of the method, not a module global (the method \<open>Train.evaluate\<close> is an
    attribute of the class, not a global name), not a builtin.
  \<^item> \<open>accuracy\<close>, read at lines 186, 188, 190 and 193 of \<open>evaluate\<close>: never assigned
    in the method, not a module global, not a builtin.
  \<^item> \<open>self.ATTR_HEAD\<close>, read at line 33 of \<open>__init__\<close>: line 27 binds the local
    variable \<open>ATTR_HEAD\<close>; nothing assigns an attribute of that name to the instance
    or to the class.
\<close>

definition global_evaluate :: "(rat list list \<Rightarrow> bool list \<Rightarrow> nat \<Rightarrow> rat list) option" where
  "global_evaluate = None"

definition global_accuracy :: "pyfloat option" where
  "global_accuracy = None"

section \<open>Configuration and the trainer object\<close>

datatype head_class = RaceHead | GenderHead | AgeHead | OtherHead string

text \<open>
  A label is one row of the label tensor: a class index for gender and race, the vector
  of age bins for age. A batch is the list of its samples; \<open>imgs\<close> and \<open>labels\<close> of the
  source are its two projections, of equal length by construction.
\<close>

datatype label = Cls int | Bins "rat list"

type_synonym 'img batch = "('img \<times> label) list"

definition imgs_of :: "'img batch \<Rightarrow> 'img list" where
  "imgs_of b = map fst b"

definition labels_of :: "'img batch \<Rightarrow> label list" where
  "labels_of b = map snd b"

record config =
  attribute :: string
  recognition_head :: head_class
  max_or_min :: string
  epochs :: int
  reduce_lr_epochs :: "int list"
  lr_plateau :: bool
  batch_size :: nat
  embedding_size :: nat
  loss :: "rat list list \<Rightarrow> label list \<Rightarrow> rat list option \<Rightarrow> rat"

text \<open>
  What the trainer does to the outside: scalars sent to the summary writer, checkpoints
  handed to \<open>save_state\<close>, updates asked of the optimizer, metrics handed to the plateau
  scheduler. They are recorded in the order in which they happen.
\<close>

datatype event =
    AddScalar string pyfloat nat
  | SaveState pyfloat nat
  | OptimizerStep
  | SchedulerStep pyfloat

text \<open>
  The instance. \<open>net\<close> is everything torch owns (backbone, head, optimizer buffers);
  \<open>lrs\<close> are the learning rates of the optimizer's parameter groups. An attribute
  that only one branch of \<open>__init__\<close> assigns is an option, \<open>None\<close> when it was never
  assigned: \<open>scheduler\<close>, and the three verification sets, each with its \<open>issame\<close>
  list. The methods are modelled on an arbitrary instance: what they do depends on the
  attributes they read, not on how the instance came to have them.
\<close>

record ('img, 'w, 'sch, 'es) train =
  cfg :: config
  net :: 'w
  lrs :: "rat list"
  val_loader :: "'img batch list"
  agedb_30 :: "('img list \<times> bool list) option"
  cfp_fp :: "('img list \<times> bool list) option"
  lfw :: "('img list \<times> bool list) option"
  weights :: "rat list option"
  tensorboard_loss_every :: nat
  evaluate_every :: nat
  save_every :: nat
  scheduler :: "'sch option"
  early_stop :: 'es
  events :: "event list"

section \<open>save_model\<close>

text \<open>
  Lines 157-164. The result is the pair the method returns, together with the instance,
  whose event log has grown by the call of \<open>save_state\<close> when there was one.
\<close>

definition save_model ::
  "('img, 'w, 'sch, 'es) train \<Rightarrow> pyfloat \<Rightarrow> pyfloat \<Rightarrow> nat \<Rightarrow> nat \<Rightarrow>
     (pyfloat \<times> nat) \<times> ('img, 'w, 'sch, 'es) train" where
  "save_model self val_acc best_acc step best_step =
     (if (max_or_min (cfg self) = ''max'' \<and> fl_greater val_acc best_acc) \<or>
         (max_or_min (cfg self) = ''min'' \<and> fl_less val_acc best_acc)
      then ((val_acc, step), self\<lparr>events := events self @ [SaveState val_acc step]\<rparr>)
      else ((best_acc, best_step), self))"

text \<open>Lines 102-105 of \<open>run\<close>: the best score before any evaluation.\<close>

definition initial_best_acc :: "config \<Rightarrow> pyfloat" where
  "initial_best_acc c =
     (let best_acc = PInf
      in if max_or_min c = ''max'' then fl_neg best_acc else best_acc)"

text \<open>
  Successive calls of \<open>save_model\<close> as \<open>run\<close> makes them: each call receives the best
  score and best step the previous one returned. The list gives the score and the step
  of each evaluation; the result also tells, call by call, whether a checkpoint was
  written.
\<close>

fun save_models ::
  "('img, 'w, 'sch, 'es) train \<Rightarrow> pyfloat \<times> nat \<Rightarrow> (pyfloat \<times> nat) list \<Rightarrow>
     bool list \<times> (pyfloat \<times> nat) \<times> ('img, 'w, 'sch, 'es) train" where
  "save_models self best [] = ([], best, self)"
| "save_models self best ((val_acc, step) # rest) =
     (let (best', self') = save_model self val_acc (fst best) step (snd best);
          (written, final) = save_models self' best' rest
      in ((events self' \<noteq> events self) # written, final))"

section \<open>What the trainer calls\<close>

text \<open>
  The network, the optimizer, the plateau scheduler, the early-stop monitor and the
  training loader are not part of \<open>train.py\<close>; the model takes them as functions.
  \<open>forward_eval\<close> is \<open>head(model(img))\<close> and \<open>embed_eval\<close> is \<open>model(img)\<close> in
  inference mode, where the network treats every sample of a batch alone;
  \<open>forward_train\<close> is \<open>head(model(imgs))\<close> in training mode, which also changes the
  network's buffers; \<open>backward\<close> is \<open>loss.backward()\<close>; \<open>train_batches\<close> gives the
  batches that \<open>iter(self.train_loader)\<close> yields in an epoch.

  \<open>round_score\<close> is what lines 229 and 234 do to the score: the quotient is formed in
  double precision and \<open>round(., 4)\<close> is applied to that double. It is given as a
  function of the exact quotient. Which of two equally near neighbours it returns is
  decided by the double arithmetic of numpy, so the model leaves it open.
\<close>

record ('img, 'w, 'sch, 'es) ext =
  forward_eval :: "'w \<Rightarrow> 'img \<Rightarrow> rat list"
  embed_eval :: "'w \<Rightarrow> 'img \<Rightarrow> rat list"
  zero_grad :: "'w \<Rightarrow> 'w"
  forward_train :: "'w \<Rightarrow> 'img list \<Rightarrow> rat list list \<times> 'w"
  backward :: "'w \<Rightarrow> rat list list \<Rightarrow> label list \<Rightarrow> rat list option \<Rightarrow> 'w"
  optimizer_step :: "'w \<Rightarrow> rat list \<Rightarrow> 'w"
  scheduler_step :: "'sch \<Rightarrow> pyfloat \<Rightarrow> rat list \<Rightarrow> 'sch \<times> rat list"
  early_stop_call :: "'es \<Rightarrow> pyfloat \<Rightarrow> 'es"
  early_stop_stop :: "'es \<Rightarrow> bool"
  train_batches :: "int \<Rightarrow> 'img batch list"
  round_score :: "rat \<Rightarrow> rat"

section \<open>evaluate_attribute\<close>

text \<open>
  The loop of lines 207-215. \<open>y_true\<close> and \<open>all_outputs\<close> grow by concatenation; the
  third component is the pair of loop variables \<open>outputs\<close>, \<open>labels\<close>, unbound until
  the body has run once and overwritten by every batch.
\<close>

fun val_loop ::
  "('img \<Rightarrow> rat list) \<Rightarrow> 'img batch list \<Rightarrow>
     label list \<times> rat list list \<times> (rat list list \<times> label list) option \<Rightarrow>
     label list \<times> rat list list \<times> (rat list list \<times> label list) option" where
  "val_loop fwd [] acc = acc"
| "val_loop fwd (b # bs) (y_true, all_outputs, last_batch) =
     (let outputs = map fwd (imgs_of b)
      in val_loop fwd bs (y_true @ labels_of b, all_outputs @ outputs, Some (outputs, labels_of b)))"

text \<open>
  \<open>torch.max(all_outputs, 1)\<close> gives, row by row, the index of the first maximal entry;
  a row without entries has no maximum and the call raises.
\<close>

fun argmax_from :: "nat \<Rightarrow> rat \<Rightarrow> nat \<Rightarrow> rat list \<Rightarrow> nat" where
  "argmax_from best_i best_v i [] = best_i"
| "argmax_from best_i best_v i (x # xs) =
     (if best_v < x then argmax_from i x (Suc i) xs
      else argmax_from best_i best_v (Suc i) xs)"

definition argmax :: "rat list \<Rightarrow> nat" where
  "argmax row = (case row of [] \<Rightarrow> 0 | x # xs \<Rightarrow> argmax_from 0 x 1 xs)"

fun torch_max_dim1 :: "rat list list \<Rightarrow> error + nat list" where
  "torch_max_dim1 [] = Inr []"
| "torch_max_dim1 (row # rows) =
     (if row = [] then Inl IndexError
      else case torch_max_dim1 rows of
             Inl e \<Rightarrow> Inl e
           | Inr idx \<Rightarrow> Inr (argmax row # idx))"

text \<open>
  \<open>np.sum(y_true == y_pred)\<close> for a vector of class indices: the number of positions
  where label and prediction agree. Both have one entry per sample.
\<close>

fun count_equal :: "label list \<Rightarrow> nat list \<Rightarrow> error + nat" where
  "count_equal (Cls c # ls) (p # ps) =
     (case count_equal ls ps of
        Inl e \<Rightarrow> Inl e
      | Inr n \<Rightarrow> Inr (if c = int p then Suc n else n))"
| "count_equal [] [] = Inr 0"
| "count_equal _ _ = Inl ShapeMismatch"

text \<open>\<open>np.sum(y_true, axis=1)\<close>: a vector of class indices has no axis 1.\<close>

fun sum_axis1 :: "label list \<Rightarrow> error + rat list" where
  "sum_axis1 [] = Inr []"
| "sum_axis1 (Bins v # ls) =
     (case sum_axis1 ls of Inl e \<Rightarrow> Inl e | Inr ss \<Rightarrow> Inr (sum_list v # ss))"
| "sum_axis1 (Cls c # ls) = Inl AxisError"

text \<open>
  sklearn's \<open>mean_absolute_error\<close> on two vectors: it refuses vectors of different
  lengths and vectors without samples.
\<close>

definition mean_absolute_error :: "rat list \<Rightarrow> rat list \<Rightarrow> error + rat" where
  "mean_absolute_error y_true y_pred =
     (if length y_true = length y_pred then
        (if y_true = [] then Inl ValueError
         else Inr (sum_list (map (\<lambda>(t, p). \<bar>p - t\<bar>) (zip y_true y_pred))
                     / of_nat (length y_true)))
      else Inl ValueError)"

text \<open>
  Lines 199-236. The score is a float: the quotient of line 234 is numpy's, which
  answers not-a-number for 0 / 0.
\<close>

definition evaluate_attribute ::
  "('img, 'w, 'sch, 'es) train \<Rightarrow> ('img, 'w, 'sch, 'es) ext \<Rightarrow> error + (pyfloat \<times> rat)" where
  "evaluate_attribute self ext =
     (case val_loop (forward_eval ext (net self)) (val_loader self) ([], [], None) of
        (y_true, all_outputs, last_batch) \<Rightarrow>
          (case last_batch of
             None \<Rightarrow> Inl UnboundLocalError
           | Some (outputs, labels) \<Rightarrow>
               (let loss_value =
                      (case weights self of
                         Some w \<Rightarrow> round4 (loss (cfg self) outputs labels (Some w))
                       | None \<Rightarrow> round4 (loss (cfg self) outputs labels None))
                in if attribute (cfg self) = ''age'' then
                     (let y_pred = map (map (\<lambda>x. of_int (rint x))) all_outputs;
                          y_pred = map sum_list y_pred
                      in case sum_axis1 y_true of
                           Inl e \<Rightarrow> Inl e
                         | Inr y_true \<Rightarrow>
                             (case mean_absolute_error y_true y_pred of
                                Inl e \<Rightarrow> Inl e
                              | Inr mae \<Rightarrow> Inr (Fin (round_score ext mae), loss_value)))
                   else
                     (case torch_max_dim1 all_outputs of
                        Inl e \<Rightarrow> Inl e
                      | Inr y_pred \<Rightarrow>
                          (case count_equal y_true y_pred of
                             Inl e \<Rightarrow> Inl e
                           | Inr n \<Rightarrow>
                               Inr (if length y_pred = 0 then NaN
                                    else Fin (round_score ext
                                                (of_nat n / of_nat (length y_pred))),
                                    loss_value))))))"

section \<open>evaluate_recognition, tensorboard_val, evaluate\<close>

text \<open>
  The loop of lines 244-247: whole batches of \<open>batch_size\<close> samples, each written into
  its slice of \<open>embeddings\<close>. With a batch size of 0 the condition never becomes false.
\<close>

function embed_loop ::
  "('img \<Rightarrow> rat list) \<Rightarrow> nat \<Rightarrow> 'img list \<Rightarrow> nat \<Rightarrow> rat list list \<Rightarrow>
     error + (nat \<times> rat list list)" where
  "embed_loop model bs samples idx embeddings =
     (if bs = 0 then Inl Diverges
      else if idx + bs \<le> length samples then
        embed_loop model bs samples (idx + bs)
          (take idx embeddings @ map model (take bs (drop idx samples))
             @ drop (idx + bs) embeddings)
      else Inr (idx, embeddings))"
  by pat_completeness auto
termination
  by (relation "measure (\<lambda>(model, bs, samples, idx, embeddings). length samples - idx)") auto

declare embed_loop.simps [simp del]

definition evaluate_recognition ::
  "('img, 'w, 'sch, 'es) train \<Rightarrow> ('img, 'w, 'sch, 'es) ext \<Rightarrow> 'img list \<Rightarrow> bool list \<Rightarrow>
     nat \<Rightarrow> bool \<Rightarrow> error + (pyfloat \<times> nat)" where
  "evaluate_recognition self ext samples issame nrof_folds tta =
     (let model = embed_eval ext (net self);
          embeddings = replicate (length samples) (replicate (embedding_size (cfg self)) 0)
      in case embed_loop model (batch_size (cfg self)) samples 0 embeddings of
           Inl e \<Rightarrow> Inl e
         | Inr (idx, embeddings) \<Rightarrow>
             (let embeddings =
                    (if idx < length samples
                     then take idx embeddings @ map model (drop idx samples)
                     else embeddings)
              in case global_evaluate of
                   None \<Rightarrow> Inl NameError
                 | Some evaluate \<Rightarrow>
                     (let accuracy = evaluate embeddings issame nrof_folds
                      in Inr (if accuracy = [] then NaN
                              else Fin (sum_list accuracy / of_nat (length accuracy)),
                              0))))"

text \<open>Lines 172-176.\<close>

definition tensorboard_val ::
  "('img, 'w, 'sch, 'es) train \<Rightarrow> pyfloat \<Rightarrow> nat \<Rightarrow> pyfloat \<Rightarrow> string \<Rightarrow>
     ('img, 'w, 'sch, 'es) train" where
  "tensorboard_val self accuracy step loss_value dataset =
     (let self = self\<lparr>events := events self @ [AddScalar (dataset @ ''val_acc'') accuracy step]\<rparr>
      in if attribute (cfg self) \<noteq> ''recognition''
         then self\<lparr>events := events self @ [AddScalar ''val_loss'' loss_value step]\<rparr>
         else self)"

text \<open>
  Lines 178-197. In the recognition branch every call of \<open>evaluate_recognition\<close> gives a
  pair, so line 192 adds three pairs into one tuple and divides the tuple by 3, which
  raises \<open>TypeError\<close>; lines 193-195 come after it.
\<close>

definition evaluate ::
  "('img, 'w, 'sch, 'es) train \<Rightarrow> ('img, 'w, 'sch, 'es) ext \<Rightarrow> nat \<Rightarrow>
     error + ((pyfloat \<times> rat) \<times> ('img, 'w, 'sch, 'es) train)" where
  "evaluate self ext step =
     (if attribute (cfg self) \<noteq> ''recognition'' then
        (case evaluate_attribute self ext of
           Inl e \<Rightarrow> Inl e
         | Inr (val_acc, val_loss) \<Rightarrow>
             Inr ((val_acc, val_loss), tensorboard_val self val_acc step (Fin val_loss) []))
      else
        (case agedb_30 self of
           None \<Rightarrow> Inl AttributeError
         | Some (samples, issame) \<Rightarrow>
        (case evaluate_recognition self ext samples issame 10 False of
           Inl e \<Rightarrow> Inl e
         | Inr agedb_30_accuracy \<Rightarrow>
        (case global_accuracy of
           None \<Rightarrow> Inl NameError
         | Some accuracy \<Rightarrow>
        (let self = tensorboard_val self accuracy step (Fin 0) ''agedb_30_''
         in case lfw self of
           None \<Rightarrow> Inl AttributeError
         | Some (samples, issame) \<Rightarrow>
        (case evaluate_recognition self ext samples issame 10 False of
           Inl e \<Rightarrow> Inl e
         | Inr lfw_accuracy \<Rightarrow>
        (let self = tensorboard_val self accuracy step (Fin 0) ''lfw_''
         in case cfp_fp self of
           None \<Rightarrow> Inl AttributeError
         | Some (samples, issame) \<Rightarrow>
        (case evaluate_recognition self ext samples issame 10 False of
           Inl e \<Rightarrow> Inl e
         | Inr cfp_fp_accuracy \<Rightarrow>
        (let self = tensorboard_val self accuracy step (Fin 0) ''cfp_fp_''
         in Inl TypeError)))))))))"

section \<open>reduce_lr and the end of an epoch\<close>

text \<open>Lines 166-168.\<close>

definition reduce_lr :: "('img, 'w, 'sch, 'es) train \<Rightarrow> ('img, 'w, 'sch, 'es) train" where
  "reduce_lr self = self\<lparr>lrs := map (\<lambda>lr. lr / 10) (lrs self)\<rparr>"

text \<open>
  The local variables of \<open>run\<close>. \<open>val_acc\<close> and \<open>val_loss\<close> start at 0 and hold the
  result of the latest evaluation afterwards.
\<close>

record loop_vars =
  running_loss :: rat
  step :: nat
  val_acc :: pyfloat
  val_loss :: rat
  best_step :: nat
  best_acc :: pyfloat

text \<open>
  Lines 143-151. \<open>self.scheduler\<close> is read in the second branch whatever the
  configuration says. The boolean of the result tells whether the epoch loop breaks.
\<close>

definition end_of_epoch ::
  "('img, 'w, 'sch, 'es) ext \<Rightarrow> ('img, 'w, 'sch, 'es) train \<times> loop_vars \<Rightarrow> int \<Rightarrow>
     error + (('img, 'w, 'sch, 'es) train \<times> loop_vars) \<times> bool" where
  "end_of_epoch ext st epoch =
     (case st of (self, v) \<Rightarrow>
        (case (if epoch \<in> set (reduce_lr_epochs (cfg self)) \<and> \<not> lr_plateau (cfg self)
               then Inr (reduce_lr self)
               else (case scheduler self of
                       None \<Rightarrow> Inl AttributeError
                     | Some sch \<Rightarrow>
                         (let (sch', lrs') = scheduler_step ext sch (val_acc v) (lrs self)
                          in Inr (self\<lparr>scheduler := Some sch', lrs := lrs',
                                       events := events self @ [SchedulerStep (val_acc v)]\<rparr>)))) of
           Inl e \<Rightarrow> Inl e
         | Inr self \<Rightarrow>
             (let es = early_stop_call ext (early_stop self) (val_acc v)
              in Inr ((self\<lparr>early_stop := es\<rparr>, v), early_stop_stop ext es))))"

section \<open>run\<close>

text \<open>
  The body of the inner loop, lines 110-141, for one batch. Both cadences are divisors
  of a remainder, so a cadence of 0 raises.
\<close>

definition train_batch ::
  "('img, 'w, 'sch, 'es) ext \<Rightarrow> ('img, 'w, 'sch, 'es) train \<times> loop_vars \<Rightarrow> 'img batch \<Rightarrow>
     error + ('img, 'w, 'sch, 'es) train \<times> loop_vars" where
  "train_batch ext st b =
     (case st of (self, v) \<Rightarrow>
        (let w = zero_grad ext (net self);
             (outputs, w) = forward_train ext w (imgs_of b);
             loss_value =
               (case weights self of
                  Some cw \<Rightarrow> loss (cfg self) outputs (labels_of b) (Some cw)
                | None \<Rightarrow> loss (cfg self) outputs (labels_of b) None);
             w = backward ext w outputs (labels_of b) (weights self);
             v = v\<lparr>running_loss := running_loss v + loss_value\<rparr>;
             self = self\<lparr>net := optimizer_step ext w (lrs self),
                         events := events self @ [OptimizerStep]\<rparr>
         in if tensorboard_loss_every self = 0 then Inl ZeroDivisionError
            else
              (let (self, v) =
                     (if step v mod tensorboard_loss_every self = 0
                      then (let loss_board =
                                  running_loss v / of_nat (tensorboard_loss_every self)
                            in (self\<lparr>events := events self
                                        @ [AddScalar ''train_loss'' (Fin loss_board) (step v)]\<rparr>,
                                v\<lparr>running_loss := 0\<rparr>))
                      else (self, v))
               in if evaluate_every self = 0 then Inl ZeroDivisionError
                  else if step v mod evaluate_every self = 0 \<and> step v \<noteq> 0 then
                    (case evaluate self ext (step v) of
                       Inl e \<Rightarrow> Inl e
                     | Inr ((acc, vloss), self) \<Rightarrow>
                         (case save_model self acc (best_acc v) (step v) (best_step v) of
                            ((b_acc, b_step), self) \<Rightarrow>
                              Inr (self, v\<lparr>val_acc := acc, val_loss := vloss,
                                           best_acc := b_acc, best_step := b_step,
                                           step := step v + 1\<rparr>)))
                  else Inr (self, v\<lparr>step := step v + 1\<rparr>))))"

fun run_batches ::
  "('img, 'w, 'sch, 'es) ext \<Rightarrow> ('img, 'w, 'sch, 'es) train \<times> loop_vars \<Rightarrow> 'img batch list \<Rightarrow>
     error + ('img, 'w, 'sch, 'es) train \<times> loop_vars" where
  "run_batches ext st [] = Inr st"
| "run_batches ext st (b # bs) =
     (case train_batch ext st b of
        Inl e \<Rightarrow> Inl e
      | Inr st \<Rightarrow> run_batches ext st bs)"

text \<open>The epoch loop, lines 107-151, over the epochs that are still to run.\<close>

fun run_epochs ::
  "('img, 'w, 'sch, 'es) ext \<Rightarrow> ('img, 'w, 'sch, 'es) train \<times> loop_vars \<Rightarrow> int list \<Rightarrow>
     error + ('img, 'w, 'sch, 'es) train \<times> loop_vars" where
  "run_epochs ext st [] = Inr st"
| "run_epochs ext st (epoch # rest) =
     (case run_batches ext st (train_batches ext epoch) of
        Inl e \<Rightarrow> Inl e
      | Inr st \<Rightarrow>
          (case end_of_epoch ext st epoch of
             Inl e \<Rightarrow> Inl e
           | Inr (st, stop) \<Rightarrow> if stop then Inr st else run_epochs ext st rest))"

text \<open>Lines 97-105: the local variables before the first epoch.\<close>

definition initial_vars :: "config \<Rightarrow> loop_vars" where
  "initial_vars c =
     \<lparr>running_loss = 0, step = 0, val_acc = Fin 0, val_loss = 0, best_step = 0,
      best_acc = initial_best_acc c\<rparr>"

text \<open>
  Lines 94-155. The result is the instance, the local variables after the final
  evaluation, and the pair that line 154 stores in \<open>best_acc\<close>.
\<close>

definition run ::
  "('img, 'w, 'sch, 'es) ext \<Rightarrow> ('img, 'w, 'sch, 'es) train \<Rightarrow>
     error + ('img, 'w, 'sch, 'es) train \<times> loop_vars \<times> (pyfloat \<times> nat)" where
  "run ext self =
     (case run_epochs ext (self, initial_vars (cfg self)) [0 .. epochs (cfg self) - 1] of
        Inl e \<Rightarrow> Inl e
      | Inr (self, v) \<Rightarrow>
          (case evaluate self ext (step v) of
             Inl e \<Rightarrow> Inl e
           | Inr ((acc, vloss), self) \<Rightarrow>
               (case save_model self acc (best_acc v) (step v) (best_step v) of
                  (best, self) \<Rightarrow> Inr (self, v\<lparr>val_acc := acc, val_loss := vloss\<rparr>, best))))"

section \<open>Construction\<close>

text \<open>
  Lines 22-33 of \<open>__init__\<close>. The table of line 27 is the local variable
  \<open>ATTR_HEAD\<close>; line 33 looks \<open>ATTR_HEAD\<close> up as an attribute of the instance, which
  at that point has the attributes \<open>config\<close>, \<open>writer\<close> and \<open>model\<close> and the methods of
  its class. The result is the class of the head that line 33 instantiates.
\<close>

definition self_ATTR_HEAD :: "(string \<times> head_class) list option" where
  "self_ATTR_HEAD = None"

definition init :: "config \<Rightarrow> error + head_class" where
  "init c =
     (let ATTR_HEAD = [(''race'', RaceHead), (''gender'', GenderHead), (''age'', AgeHead),
                       (''recognition'', recognition_head c)]
      in case self_ATTR_HEAD of
           None \<Rightarrow> Inl AttributeError
         | Some table \<Rightarrow>
             (case map_of table (attribute c) of
                None \<Rightarrow> Inl KeyError
              | Some head \<Rightarrow> Inr head))"

text \<open>
  Lines 84-90: the cadences from the number of training batches, and the scheduler,
  which is created for a plateau run only. \<open>new\<close> is the object that
  \<open>ReduceLROnPlateau\<close> returns.
\<close>

definition init_cadence :: "nat \<Rightarrow> nat \<Rightarrow> nat" where
  "init_cadence len_train_loader k = max (len_train_loader div k) 1"

definition init_scheduler :: "config \<Rightarrow> 'sch \<Rightarrow> 'sch option" where
  "init_scheduler c new = (if lr_plateau c then Some new else None)"

section \<open>Counting the optimizer's updates\<close>

text \<open>
  The number of \<open>optimizer.step()\<close> calls the instance has made: the number of
  \<open>OptimizerStep\<close> events in its log.
\<close>

definition optimizer_updates :: "('img, 'w, 'sch, 'es) train \<Rightarrow> nat" where
  "optimizer_updates self = length (filter (\<lambda>e. e = OptimizerStep) (events self))"

section \<open>The prediction data loader\<close>

text \<open>
  \<open>data/data_loader_predict.py\<close>. The image-list file reaches the code as the table
  that \<open>pd.read_csv\<close> parses from it: one row per line of the file, each with a first
  field and the fields after it; pandas refuses a file without rows. Opening, decoding,
  resizing and converting an image are functions of the imaging libraries.
\<close>

type_synonym row = "string \<times> string list"

record 'pil vision =
  image_open_rgb :: "string \<Rightarrow> error + 'pil"
  resize :: "nat \<times> nat \<Rightarrow> 'pil \<Rightarrow> 'pil"
  to_tensor :: "'pil \<Rightarrow> rat list list list"

text \<open>\<open>os.path.join\<close> of two components on a POSIX system.\<close>

definition path_join :: "string \<Rightarrow> string \<Rightarrow> string" where
  "path_join a b =
     (if take 1 b = ''/'' then b
      else if a = [] then a @ b
      else if last a = CHR ''/'' then a @ b
      else a @ ''/'' @ b)"

text \<open>
  \<open>transforms.Normalize(mean, std)\<close> on a tensor of channels, each a matrix of pixels:
  channel by channel, subtract the mean and divide by the standard deviation.
\<close>

definition normalize_tensor :: "rat list \<Rightarrow> rat list \<Rightarrow> rat list list list \<Rightarrow> rat list list list" where
  "normalize_tensor mean std tensor =
     map (\<lambda>(channel, m, s). map (map (\<lambda>x. (x - m) / s)) channel) (zip tensor (zip mean std))"

text \<open>Lines 17-21: the composition that \<open>self.transform\<close> holds.\<close>

definition transform :: "'pil vision \<Rightarrow> 'pil \<Rightarrow> rat list list list" where
  "transform vis img =
     normalize_tensor [1 / 2, 1 / 2, 1 / 2] [1 / 2, 1 / 2, 1 / 2]
       (to_tensor vis (resize vis (112, 112) img))"

record image_list =
  samples :: "string list"

text \<open>Lines 11-15, 23-24 and 26-29. A list index may be negative and counts from the end then.\<close>

definition ImageList :: "string \<Rightarrow> row list \<Rightarrow> error + image_list" where
  "ImageList source image_names =
     (if image_names = [] then Inl ValueError
      else Inr \<lparr>samples = map (\<lambda>r. path_join source (fst r)) image_names\<rparr>)"

definition ImageList_len :: "image_list \<Rightarrow> nat" where
  "ImageList_len self = length (samples self)"

definition ImageList_getitem :: "'pil vision \<Rightarrow> image_list \<Rightarrow> int \<Rightarrow> error + rat list list list" where
  "ImageList_getitem vis self index =
     (let n = int (length (samples self));
          i = (if index < 0 then index + n else index)
      in if 0 \<le> i then
           (if i < n then
              (case image_open_rgb vis (samples self ! nat i) of
                 Inl e \<Rightarrow> Inl e
               | Inr img \<Rightarrow> Inr (transform vis img))
            else Inl IndexError)
         else Inl IndexError)"

text \<open>
  torch's \<open>DataLoader\<close> over a dataset with \<open>__len__\<close> and \<open>__getitem__\<close>: the
  sampler gives the indices, in order or in the permutation drawn for the pass; the
  batch sampler cuts them into runs of \<open>batch_size\<close> and drops a shorter last run on
  request; every batch is the list of the items at its indices. The number of worker
  processes does not change what is yielded.
\<close>

function chunks :: "nat \<Rightarrow> 'a list \<Rightarrow> 'a list list" where
  "chunks n xs = (if n = 0 \<or> xs = [] then [] else take n xs # chunks n (drop n xs))"
  by pat_completeness auto
termination
  by (relation "measure (\<lambda>(n, xs). length xs)") auto

declare chunks.simps [simp del]

definition sampler :: "bool \<Rightarrow> nat list \<Rightarrow> nat \<Rightarrow> nat list" where
  "sampler shuffle permutation n = (if shuffle then permutation else [0..<n])"

definition batch_sampler :: "nat \<Rightarrow> bool \<Rightarrow> nat list \<Rightarrow> nat list list" where
  "batch_sampler bsize drop_last indices =
     (if drop_last then filter (\<lambda>b. length b = bsize) (chunks bsize indices)
      else chunks bsize indices)"

fun collect :: "('a \<Rightarrow> error + 'b) \<Rightarrow> 'a list \<Rightarrow> error + 'b list" where
  "collect f [] = Inr []"
| "collect f (x # xs) =
     (case f x of
        Inl e \<Rightarrow> Inl e
      | Inr y \<Rightarrow> (case collect f xs of Inl e \<Rightarrow> Inl e | Inr ys \<Rightarrow> Inr (y # ys)))"

definition DataLoader ::
  "(int \<Rightarrow> error + 'item) \<Rightarrow> nat \<Rightarrow> nat \<Rightarrow> bool \<Rightarrow> bool \<Rightarrow> nat list \<Rightarrow> error + 'item list list" where
  "DataLoader getitem len bsize shuffle drop_last permutation =
     (if bsize = 0 then Inl ValueError
      else collect (collect (\<lambda>i. getitem (int i)))
             (batch_sampler bsize drop_last (sampler shuffle permutation len)))"

text \<open>Lines 32-38: the batches one pass over the loader yields.\<close>

definition PredictionDataLoader ::
  "'pil vision \<Rightarrow> nat \<Rightarrow> nat \<Rightarrow> string \<Rightarrow> row list \<Rightarrow> nat list \<Rightarrow>
     error + rat list list list list list" where
  "PredictionDataLoader vis bsize workers source image_list permutation =
     (case ImageList source image_list of
        Inl e \<Rightarrow> Inl e
      | Inr dataset \<Rightarrow>
          DataLoader (ImageList_getitem vis dataset) (ImageList_len dataset) bsize
            False False permutation)"

section \<open>The metrics in the words of the specification\<close>

text \<open>
  The fraction of samples whose predicted class, the index of the largest output, is the
  class of the label; and the mean absolute error between the sum of the rounded outputs
  and the sum of the label's bins.
\<close>



definition age_mae :: "('img \<Rightarrow> rat list) \<Rightarrow> ('img \<times> rat list) list \<Rightarrow> rat" where
  "age_mae fwd xs =
     sum_list (map (\<lambda>(img, bins).
                 \<bar>sum_list (map (\<lambda>x. of_int (rint x)) (fwd img)) - sum_list bins\<bar>) xs)
       / of_nat (length xs)"

section \<open>Concrete runs\<close>

text \<open>
  A gender run on a fixed schedule with ten validation samples in batches of four, four
  and two, of which the network gets six right; the same run with a plateau scheduler
  and one validation sample; the same run with two validation batches, of whose three
  samples the network gets two right; an age run with three samples whose outputs lie
  on rounding ties; a recognition run; and a table of four image names. The score is
  rounded by \<open>round4\<close> in all of them.
\<close>

definition example_loss :: "rat list list \<Rightarrow> label list \<Rightarrow> rat list option \<Rightarrow> rat" where
  "example_loss outputs ls w = sum_list (map sum_list outputs) / 3"

definition example_config :: config where
  "example_config =
     \<lparr>attribute = ''gender'', recognition_head = OtherHead ''ArcFace'', max_or_min = ''max'',
      epochs = 2, reduce_lr_epochs = [1], lr_plateau = False, batch_size = 2,
      embedding_size = 2, loss = example_loss\<rparr>"

definition example_ext :: "(nat, nat, unit, unit) ext" where
  "example_ext =
     \<lparr>forward_eval = (\<lambda>w img. [1, 2 * of_nat (img mod 2)]),
      embed_eval = (\<lambda>w img. [of_nat img, 0]),
      zero_grad = (\<lambda>w. w),
      forward_train = (\<lambda>w is. (map (\<lambda>i. [1, 0]) is, w)),
      backward = (\<lambda>w outputs ls cw. w),
      optimizer_step = (\<lambda>w rates. w + 1),
      scheduler_step = (\<lambda>sch v rates. (sch, rates)),
      early_stop_call = (\<lambda>es v. es),
      early_stop_stop = (\<lambda>es. False),
      train_batches = (\<lambda>epoch. [[(0, Cls 0)], [(1, Cls 1)]]),
      round_score = round4\<rparr>"

definition example_gender_batches :: "(nat \<times> int) list list" where
  "example_gender_batches =
     [[(0, 0), (1, 1), (2, 0), (3, 1)], [(4, 0), (5, 1), (6, 1), (7, 0)], [(8, 1), (9, 0)]]"

definition example_train :: "(nat, nat, unit, unit) train" where
  "example_train =
     \<lparr>cfg = example_config, net = 0, lrs = [1 / 10, 1 / 10, 1 / 10],
      val_loader = map (map (\<lambda>(img, c). (img, Cls c))) example_gender_batches,
      agedb_30 = None, cfp_fp = None, lfw = None, weights = Some [1, 2],
      tensorboard_loss_every = init_cadence 2 100, evaluate_every = init_cadence 2 5,
      save_every = init_cadence 2 5,
      scheduler = init_scheduler example_config (), early_stop = (), events = []\<rparr>"

definition example_plateau_train :: "(nat, nat, unit, unit) train" where
  "example_plateau_train = example_train\<lparr>val_loader := [[(1, Cls 1)]], scheduler := Some ()\<rparr>"






definition example_recognition_train :: "(nat, nat, unit, unit) train" where
  "example_recognition_train =
     example_train
       \<lparr>cfg := example_config\<lparr>attribute := ''recognition''\<rparr>,
        val_loader := [],
        agedb_30 := Some ([0, 1, 2], [True, False, True]),
        cfp_fp := Some ([3, 4], [False, True]),
        lfw := Some ([5], [True]),
        weights := None\<rparr>"

definition example_vision :: "string vision" where
  "example_vision =
     \<lparr>image_open_rgb = (\<lambda>p. if p = ''faces/missing.jpg'' then Inl OSError else Inr p),
      resize = (\<lambda>size img. img),
      to_tensor = (\<lambda>img. [[[of_nat (length img)]], [[1]], [[0]]])\<rparr>"

definition example_rows :: "row list" where
  "example_rows = [(''a.jpg'', []), (''b.jpg'', [''x'']), (''/abs/c.jpg'', []), (''d.jpg'', [])]"

section \<open>Rounding\<close>

lemma rint_lower: "of_int a \<le> x \<Longrightarrow> a \<le> rint x"
proof -
  assume "of_int a \<le> x"
  then have "a \<le> \<lfloor>x\<rfloor>" by (simp add: le_floor_iff)
  then show ?thesis unfolding rint_def Let_def by auto
qed

lemma rint_upper: "x \<le> of_int b \<Longrightarrow> rint x \<le> b"
  unfolding rint_def Let_def by (auto simp: floor_le_iff)




lemma round4_ties:
  "round4 (17 / 800) = 212 / 10000 \<and> round4 (139 / 800) = 1738 / 10000
   \<and> round4 (1 / 160) = 62 / 10000 \<and> round4 (2 / 3) = 6667 / 10000"
  by code_simp


section \<open>Checkpoints follow improvements\<close>

text \<open>
  C1. \<open>save_model\<close> hands a checkpoint to \<open>save_state\<close> exactly when the new score
  improves on the best one so far: strictly greater under \<open>max\<close>, strictly less under
  \<open>min\<close>. On an improvement the returned best score and best step are the new score
  and the current step; otherwise nothing changes. For the scores 0.5, 0.6, 0.55 of
  three successive evaluations under \<open>max\<close>, starting from the initial best score, a
  checkpoint is written at the first and at the second evaluation and not at the third.
\<close>

theorem save_model_on_improvement:
  "(case save_model self v b n bn of
      ((b', bn'), self') \<Rightarrow>
        (if (max_or_min (cfg self) = ''max'' \<and> fl_less b v) \<or>
            (max_or_min (cfg self) = ''min'' \<and> fl_less v b)
         then events self' = events self @ [SaveState v n] \<and> b' = v \<and> bn' = n
         else self' = self \<and> b' = b \<and> bn' = bn))
   \<and> (max_or_min (cfg self) = ''max'' \<longrightarrow>
        save_models self (initial_best_acc (cfg self), 0)
            [(Fin (1 / 2), n1), (Fin (3 / 5), n2), (Fin (11 / 20), n3)]
          = ([True, True, False], (Fin (3 / 5), n2),
             self\<lparr>events := events self
                      @ [SaveState (Fin (1 / 2)) n1, SaveState (Fin (3 / 5)) n2]\<rparr>))"
  by (simp add: save_model_def fl_greater_def initial_best_acc_def)

theorem save_model_on_improvement_witness:
  "max_or_min (cfg example_train) = ''max'' \<and>
   save_models example_train (NInf, 0) [(Fin (1 / 2), 5), (Fin (3 / 5), 10), (Fin (11 / 20), 15)]
     = ([True, True, False], (Fin (3 / 5), 10),
        example_train\<lparr>events := [SaveState (Fin (1 / 2)) 5, SaveState (Fin (3 / 5)) 10]\<rparr>)"
  using save_model_on_improvement [of example_train _ _ _ _ 5 10 15]
  by (simp add: example_train_def example_config_def initial_best_acc_def)

text \<open>
  C9. The best score starts at minus infinity under \<open>max\<close> and at plus infinity under
  \<open>min\<close>, so the call of \<open>save_model\<close> that receives the initial best score writes a
  checkpoint for every finite score.
\<close>

theorem first_save_model_writes:
  "(max_or_min c = ''max'' \<longrightarrow> initial_best_acc c = NInf) \<and>
   (max_or_min c = ''min'' \<longrightarrow> initial_best_acc c = PInf) \<and>
   best_acc (initial_vars c) = initial_best_acc c \<and>
   (cfg self = c \<and> (max_or_min c = ''max'' \<or> max_or_min c = ''min'') \<longrightarrow>
      save_model self (Fin x) (best_acc (initial_vars c)) n (best_step (initial_vars c))
        = ((Fin x, n), self\<lparr>events := events self @ [SaveState (Fin x) n]\<rparr>))"
  by (auto simp: save_model_def fl_greater_def initial_best_acc_def initial_vars_def)

theorem first_save_model_writes_witness:
  "max_or_min example_config = ''max'' \<and> cfg example_train = example_config \<and>
   initial_best_acc example_config = NInf \<and>
   save_model example_train (Fin (- 7)) NInf 4 0
     = ((Fin (- 7), 4), example_train\<lparr>events := [SaveState (Fin (- 7)) 4]\<rparr>)"
  using first_save_model_writes [of example_config example_train "- 7" 4]
  by (simp add: example_train_def example_config_def initial_vars_def initial_best_acc_def)

text \<open>
  Inside \<open>run\<close> the best score and the best step change only where \<open>save_model\<close>
  is called: a batch without an evaluation keeps them and writes no checkpoint, and so
  does the end of an epoch. The first call of \<open>save_model\<close> in a run therefore
  receives the initial best score.
\<close>

lemma train_batch_keeps_best:
  assumes "train_batch ext (self, v) b = Inr (self', v')"
    and "step v mod evaluate_every self \<noteq> 0 \<or> step v = 0"
  shows "best_acc v' = best_acc v \<and> best_step v' = best_step v
         \<and> filter (\<lambda>e. \<exists>a n. e = SaveState a n) (events self')
             = filter (\<lambda>e. \<exists>a n. e = SaveState a n) (events self)"
  using assms unfolding train_batch_def
  by (auto simp: Let_def split: if_splits sum.splits prod.splits)

lemma end_of_epoch_keeps_vars:
  "end_of_epoch ext (self, v) epoch = Inr ((self', v'), stop) \<Longrightarrow> v' = v"
  unfolding end_of_epoch_def
  by (auto simp: Let_def split: if_splits sum.splits prod.splits option.splits)

section \<open>The end of an epoch\<close>

text \<open>
  On a fixed schedule the learning rates are divided by 10 at the listed epochs, and on
  a plateau run the scheduler is stepped with the latest score. A run on a fixed
  schedule has no scheduler, and at every epoch that is not listed it reads the missing
  attribute.
\<close>

lemma end_of_epoch_fixed_reduction:
  assumes "epoch \<in> set (reduce_lr_epochs (cfg self))" and "\<not> lr_plateau (cfg self)"
  shows "\<exists>self' stop. end_of_epoch ext (self, v) epoch = Inr ((self', v), stop)
           \<and> lrs self' = map (\<lambda>lr. lr / 10) (lrs self) \<and> events self' = events self"
  using assms by (simp add: end_of_epoch_def reduce_lr_def Let_def)

lemma end_of_epoch_plateau:
  assumes "lr_plateau (cfg self)" and "scheduler self = Some sch"
  shows "\<exists>self' stop. end_of_epoch ext (self, v) epoch = Inr ((self', v), stop)
           \<and> events self' = events self @ [SchedulerStep (val_acc v)]"
  using assms by (simp add: end_of_epoch_def Let_def split: prod.splits)

lemma end_of_epoch_without_scheduler:
  assumes "\<not> lr_plateau (cfg self)" and "epoch \<notin> set (reduce_lr_epochs (cfg self))"
    and "scheduler self = init_scheduler (cfg self) new"
  shows "end_of_epoch ext (self, v) epoch = Inl AttributeError"
  using assms by (simp add: end_of_epoch_def init_scheduler_def)

lemma run_fixed_schedule_raises: "run example_ext example_train = Inl AttributeError"
proof -
  have "(case run example_ext example_train of Inl e \<Rightarrow> e = AttributeError | Inr r \<Rightarrow> False)"
    by code_simp
  then show ?thesis by (simp split: sum.splits)
qed

text \<open>
  C2, at a run on a fixed schedule that reduces at epoch 1 only: the end of epoch 0
  raises \<open>AttributeError\<close>, where the claim has the controller invoked and the epoch
  completed.
\<close>

theorem end_of_epoch_fixed_schedule_raises:
  "end_of_epoch example_ext (example_train, initial_vars example_config) 0 = Inl AttributeError"
  by (simp add: end_of_epoch_def example_train_def example_config_def init_scheduler_def)

section \<open>Evaluation of the recognition task\<close>

lemma evaluate_recognition_never_returns:
  "evaluate_recognition self ext xs issame k tta \<noteq> Inr r"
  by (simp add: evaluate_recognition_def global_evaluate_def Let_def
        split: sum.splits prod.splits)

lemma evaluate_recognition_task_never_returns:
  assumes "attribute (cfg self) = ''recognition''"
  shows "evaluate self ext n \<noteq> Inr r"
  using assms
  by (simp add: evaluate_def global_accuracy_def evaluate_recognition_never_returns
        split: option.splits sum.splits prod.splits)

text \<open>
  C3, at a recognition run with three verification sets: the evaluation pass raises
  \<open>NameError\<close> in its first call of \<open>evaluate_recognition\<close>, where the claim has it
  return the average of three accuracies.
\<close>

theorem evaluate_recognition_task_raises:
  "evaluate example_recognition_train example_ext 7 = Inl NameError"
proof -
  have "(case evaluate example_recognition_train example_ext 7 of
           Inl e \<Rightarrow> e = NameError | Inr r \<Rightarrow> False)"
    by code_simp
  then show ?thesis by (simp split: sum.splits)
qed

section \<open>Construction\<close>

lemma init_always_raises: "init c = Inl AttributeError"
  by (simp add: init_def self_ATTR_HEAD_def)

text \<open>
  C4, at a configuration whose attribute is \<open>gender\<close>: construction raises
  \<open>AttributeError\<close> at line 33, where the claim has it select the gender head.
\<close>

theorem init_known_attribute_raises: "init example_config = Inl AttributeError"
  by (simp add: init_def self_ATTR_HEAD_def)

section \<open>The validation pass\<close>









subsection \<open>The predicted class\<close>

text \<open>\<open>argmax\<close> is the first position that holds the largest entry of the row.\<close>

lemma argmax_from_first_maximum:
  assumes "length pre = i" and "bi < i" and "bv = pre ! bi"
    and "\<forall>j < i. pre ! j \<le> bv" and "\<forall>j < bi. pre ! j < bv"
  shows "argmax_from bi bv i xs < length (pre @ xs)
         \<and> (\<forall>j < length (pre @ xs). (pre @ xs) ! j \<le> (pre @ xs) ! argmax_from bi bv i xs)
         \<and> (\<forall>j < argmax_from bi bv i xs.
               (pre @ xs) ! j < (pre @ xs) ! argmax_from bi bv i xs)"
  using assms
proof (induction xs arbitrary: pre i bi bv)
  case Nil
  then show ?case by simp
next
  case (Cons x xs)
  show ?case
  proof (cases "bv < x")
    case True
    have "argmax_from i x (Suc i) xs < length ((pre @ [x]) @ xs)
         \<and> (\<forall>j < length ((pre @ [x]) @ xs).
               ((pre @ [x]) @ xs) ! j \<le> ((pre @ [x]) @ xs) ! argmax_from i x (Suc i) xs)
         \<and> (\<forall>j < argmax_from i x (Suc i) xs.
               ((pre @ [x]) @ xs) ! j < ((pre @ [x]) @ xs) ! argmax_from i x (Suc i) xs)"
    proof (rule Cons.IH)
      show "length (pre @ [x]) = Suc i" using Cons.prems by simp
      show "i < Suc i" by simp
      show "x = (pre @ [x]) ! i" using Cons.prems by (simp add: nth_append)
      show "\<forall>j<Suc i. (pre @ [x]) ! j \<le> x"
        using Cons.prems True by (auto simp: nth_append less_Suc_eq intro: less_imp_le order.trans)
      show "\<forall>j<i. (pre @ [x]) ! j < x"
        using Cons.prems True by (auto simp: nth_append intro: le_less_trans)
    qed
    with True show ?thesis by simp
  next
    case False
    have "argmax_from bi bv (Suc i) xs < length ((pre @ [x]) @ xs)
         \<and> (\<forall>j < length ((pre @ [x]) @ xs).
               ((pre @ [x]) @ xs) ! j \<le> ((pre @ [x]) @ xs) ! argmax_from bi bv (Suc i) xs)
         \<and> (\<forall>j < argmax_from bi bv (Suc i) xs.
               ((pre @ [x]) @ xs) ! j < ((pre @ [x]) @ xs) ! argmax_from bi bv (Suc i) xs)"
    proof (rule Cons.IH)
      show "length (pre @ [x]) = Suc i" using Cons.prems by simp
      show "bi < Suc i" using Cons.prems by simp
      show "bv = (pre @ [x]) ! bi" using Cons.prems by (simp add: nth_append)
      show "\<forall>j<Suc i. (pre @ [x]) ! j \<le> bv"
        using Cons.prems False by (auto simp: nth_append less_Suc_eq)
      show "\<forall>j<bi. (pre @ [x]) ! j < bv"
        using Cons.prems by (auto simp: nth_append)
    qed
    with False show ?thesis by simp
  qed
qed

lemma argmax_first_maximum:
  assumes "row \<noteq> []"
  shows "argmax row < length row
         \<and> (\<forall>j < length row. row ! j \<le> row ! argmax row)
         \<and> (\<forall>j < argmax row. row ! j < row ! argmax row)"
proof -
  from assms obtain x xs where r: "row = x # xs" by (cases row) auto
  have "argmax_from 0 x 1 xs < length ([x] @ xs)
         \<and> (\<forall>j < length ([x] @ xs). ([x] @ xs) ! j \<le> ([x] @ xs) ! argmax_from 0 x 1 xs)
         \<and> (\<forall>j < argmax_from 0 x 1 xs. ([x] @ xs) ! j < ([x] @ xs) ! argmax_from 0 x 1 xs)"
    by (rule argmax_from_first_maximum) simp_all
  then show ?thesis by (simp add: r argmax_def)
qed

subsection \<open>Classification accuracy\<close>








subsection \<open>Age error\<close>

lemma age_mae_nonneg: "0 \<le> age_mae fwd xs"
  unfolding age_mae_def
  by (intro divide_nonneg_nonneg sum_list_nonneg) (auto simp: case_prod_unfold)





subsection \<open>The validation loss\<close>





section \<open>The step counter\<close>

lemma tensorboard_val_updates:
  "optimizer_updates (tensorboard_val self a n l d) = optimizer_updates self"
  by (simp add: tensorboard_val_def optimizer_updates_def Let_def)

lemma evaluate_updates:
  "evaluate self ext n = Inr (r, self') \<Longrightarrow> optimizer_updates self' = optimizer_updates self"
  unfolding evaluate_def
  by (auto simp: tensorboard_val_updates Let_def
        split: if_splits sum.splits option.splits prod.splits)

lemma save_model_updates:
  "save_model self a b n bn = (r, self') \<Longrightarrow> optimizer_updates self' = optimizer_updates self"
  unfolding save_model_def by (auto simp: optimizer_updates_def split: if_splits)

lemma train_batch_counts:
  assumes "train_batch ext (self, v) b = Inr (self', v')"
  shows "step v' = step v + 1 \<and> optimizer_updates self' = optimizer_updates self + 1"
  using assms unfolding train_batch_def
  by (auto simp: Let_def optimizer_updates_def[of "_\<lparr>events := _\<rparr>"] optimizer_updates_def[of self]
      split: if_splits sum.splits prod.splits
      dest!: evaluate_updates save_model_updates)

lemma end_of_epoch_counts:
  assumes "end_of_epoch ext (self, v) epoch = Inr ((self', v'), stop)"
  shows "step v' = step v \<and> optimizer_updates self' = optimizer_updates self"
  using assms unfolding end_of_epoch_def
  by (auto simp: Let_def reduce_lr_def optimizer_updates_def
      split: if_splits sum.splits prod.splits option.splits)

lemma run_batches_counts:
  "run_batches ext (self, v) bs = Inr (self', v') \<Longrightarrow>
     step v' = step v + length bs \<and> optimizer_updates self' = optimizer_updates self + length bs"
proof (induction bs arbitrary: self v)
  case Nil
  then show ?case by simp
next
  case (Cons b bs)
  then obtain self1 v1 where s: "train_batch ext (self, v) b = Inr (self1, v1)"
    and r: "run_batches ext (self1, v1) bs = Inr (self', v')"
    by (auto split: sum.splits)
  from train_batch_counts [OF s] Cons.IH [OF r] show ?case by simp
qed

lemma run_epochs_counts:
  "run_epochs ext (self, v) es = Inr (self', v') \<Longrightarrow>
     step v \<le> step v' \<and> optimizer_updates self' = optimizer_updates self + (step v' - step v)"
proof (induction es arbitrary: self v)
  case Nil
  then show ?case by simp
next
  case (Cons e es)
  from Cons.prems obtain self1 v1 self2 v2 stop where
    a: "run_batches ext (self, v) (train_batches ext e) = Inr (self1, v1)" and
    b: "end_of_epoch ext (self1, v1) e = Inr ((self2, v2), stop)" and
    c: "if stop then (self', v') = (self2, v2)
        else run_epochs ext (self2, v2) es = Inr (self', v')"
    by (auto split: sum.splits if_splits)
  note A = run_batches_counts [OF a] and B = end_of_epoch_counts [OF b]
  show ?case
  proof (cases stop)
    case True
    with c A B show ?thesis by simp
  next
    case False
    with c have "run_epochs ext (self2, v2) es = Inr (self', v')" by simp
    from Cons.IH [OF this] A B show ?thesis by simp
  qed
qed

lemma run_counts:
  assumes "run ext self = Inr (self', v', best)"
  shows "optimizer_updates self' = optimizer_updates self + step v'"
proof -
  from assms obtain self1 v1 r self2 where
    a: "run_epochs ext (self, initial_vars (cfg self)) [0 .. epochs (cfg self) - 1]
          = Inr (self1, v1)" and
    b: "evaluate self1 ext (step v1) = Inr (r, self2)" and
    c: "save_model self2 (fst r) (best_acc v1) (step v1) (best_step v1) = (best, self')" and
    d: "step v' = step v1"
    unfolding run_def by (auto split: sum.splits prod.splits)
  have "step (initial_vars (cfg self)) = 0" by (simp add: initial_vars_def)
  with run_epochs_counts [OF a] evaluate_updates [OF b] save_model_updates [OF c] d
  show ?thesis by simp
qed

text \<open>
  C8. The step counter starts at 0. Every training batch that completes adds exactly 1
  to the counter and makes exactly one optimizer update; the end of an epoch changes
  neither, so the counter is not reset between epochs. Hence over any sequence of
  batches and epochs the counter grows by the number of updates made, and at the end of
  a run it equals the number of updates the run has made.
\<close>

theorem step_counts_optimizer_updates:
  "step (initial_vars c) = 0
   \<and> (train_batch ext (self, v) b = Inr (self', v') \<longrightarrow>
        step v' = step v + 1 \<and> optimizer_updates self' = optimizer_updates self + 1)
   \<and> (end_of_epoch ext (self, v) epoch = Inr ((self', v'), stop) \<longrightarrow>
        step v' = step v \<and> optimizer_updates self' = optimizer_updates self)
   \<and> (run_batches ext (self, v) bs = Inr (self', v') \<longrightarrow>
        step v' = step v + length bs \<and> optimizer_updates self' = optimizer_updates self + length bs)
   \<and> (run_epochs ext (self, v) es = Inr (self', v') \<longrightarrow>
        step v \<le> step v' \<and> optimizer_updates self' = optimizer_updates self + (step v' - step v))
   \<and> (run ext self = Inr (self', v', best) \<longrightarrow>
        optimizer_updates self' = optimizer_updates self + step v')"
proof (intro conjI impI)
  show "step (initial_vars c) = 0" by (simp add: initial_vars_def)
next
  assume a: "train_batch ext (self, v) b = Inr (self', v')"
  from train_batch_counts [OF a] show "step v' = step v + 1" ..
  from train_batch_counts [OF a] show "optimizer_updates self' = optimizer_updates self + 1" ..
next
  assume a: "end_of_epoch ext (self, v) epoch = Inr ((self', v'), stop)"
  from end_of_epoch_counts [OF a] show "step v' = step v" ..
  from end_of_epoch_counts [OF a] show "optimizer_updates self' = optimizer_updates self" ..
next
  assume a: "run_batches ext (self, v) bs = Inr (self', v')"
  from run_batches_counts [OF a] show "step v' = step v + length bs" ..
  from run_batches_counts [OF a]
  show "optimizer_updates self' = optimizer_updates self + length bs" ..
next
  assume a: "run_epochs ext (self, v) es = Inr (self', v')"
  from run_epochs_counts [OF a] show "step v \<le> step v'" ..
  from run_epochs_counts [OF a]
  show "optimizer_updates self' = optimizer_updates self + (step v' - step v)" ..
next
  assume a: "run ext self = Inr (self', v', best)"
  from run_counts [OF a] show "optimizer_updates self' = optimizer_updates self + step v'" .
qed

theorem step_counts_optimizer_updates_witness:
  "(case train_batch example_ext (example_plateau_train, initial_vars example_config)
           [(0, Cls 0)] of
      Inl e \<Rightarrow> False
    | Inr (self', v') \<Rightarrow> step v' = 1 \<and> optimizer_updates self' = 1) \<and>
   (case run example_ext example_plateau_train of
      Inl e \<Rightarrow> False
    | Inr (self', v', best) \<Rightarrow>
        step v' = 4 \<and> optimizer_updates self' = 4
        \<and> optimizer_updates self' = optimizer_updates example_plateau_train + step v')"
proof -
  have t: "(case train_batch example_ext (example_plateau_train, initial_vars example_config)
                   [(0, Cls 0)] of
              Inl e \<Rightarrow> False
            | Inr (self', v') \<Rightarrow> step v' = 1 \<and> optimizer_updates self' = 1)"
    by code_simp
  have r: "(case run example_ext example_plateau_train of
              Inl e \<Rightarrow> False
            | Inr (self', v', best) \<Rightarrow> step v' = 4 \<and> optimizer_updates self' = 4)"
    by code_simp
  then obtain self' v' best where
    e: "run example_ext example_plateau_train = Inr (self', v', best)"
    by (auto split: sum.splits)
  from step_counts_optimizer_updates
         [of _ example_ext example_plateau_train _ _ self' v' _ _ _ _ best] e
  have "optimizer_updates self' = optimizer_updates example_plateau_train + step v'"
    by blast
  with t r e show ?thesis by simp
qed

section \<open>The prediction loader keeps the order of the file\<close>

lemma chunks_Nil: "chunks n [] = []"
  by (simp add: chunks.simps)

lemma chunks_step: "0 < n \<Longrightarrow> xs \<noteq> [] \<Longrightarrow> chunks n xs = take n xs # chunks n (drop n xs)"
  by (subst chunks.simps) simp

lemma concat_chunks: "0 < n \<Longrightarrow> concat (chunks n xs) = xs"
proof (induction n xs rule: chunks.induct)
  case (1 n xs)
  show ?case
  proof (cases "xs = []")
    case True
    then show ?thesis by (simp add: chunks_Nil)
  next
    case False
    with 1 show ?thesis by (simp add: chunks_step)
  qed
qed

lemma chunks_sizes:
  "0 < n \<Longrightarrow> list_all (\<lambda>b. b \<noteq> [] \<and> length b \<le> n) (chunks n xs)"
proof (induction n xs rule: chunks.induct)
  case (1 n xs)
  show ?case
  proof (cases "xs = []")
    case True
    then show ?thesis by (simp add: chunks_Nil)
  next
    case False
    with 1 show ?thesis by (simp add: chunks_step)
  qed
qed

lemma collect_length: "collect f xs = Inr ys \<Longrightarrow> length ys = length xs"
  by (induction xs arbitrary: ys) (auto split: sum.splits)

lemma collect_take: "collect f xs = Inr ys \<Longrightarrow> collect f (take n xs) = Inr (take n ys)"
proof (induction xs arbitrary: ys n)
  case Nil
  then show ?case by simp
next
  case (Cons x xs)
  then show ?case by (cases n) (auto split: sum.splits)
qed

lemma collect_drop: "collect f xs = Inr ys \<Longrightarrow> collect f (drop n xs) = Inr (drop n ys)"
proof (induction xs arbitrary: ys n)
  case Nil
  then show ?case by simp
next
  case (Cons x xs)
  then show ?case by (cases n) (auto split: sum.splits)
qed

lemma collect_chunks:
  "collect f xs = Inr ys \<Longrightarrow> collect (collect f) (chunks n xs) = Inr (chunks n ys)"
proof (induction n xs arbitrary: ys rule: chunks.induct)
  case (1 n xs)
  show ?case
  proof (cases "n = 0 \<or> xs = []")
    case True
    with 1(2) show ?thesis by (auto simp: chunks.simps [of n xs] chunks.simps [of n ys])
  next
    case False
    then have n: "0 < n" and x: "xs \<noteq> []" by auto
    from collect_length [OF 1(2)] x have y: "ys \<noteq> []" by auto
    from False have "collect (collect f) (chunks n (drop n xs)) = Inr (chunks n (drop n ys))"
      using 1(1) collect_drop [OF 1(2)] by blast
    then show ?thesis
      using collect_take [OF 1(2), of n] by (simp add: chunks_step [OF n x] chunks_step [OF n y])
  qed
qed

lemma collect_nth:
  "collect f xs = Inr ys \<Longrightarrow> i < length xs \<Longrightarrow> f (xs ! i) = Inr (ys ! i)"
proof (induction xs arbitrary: ys i)
  case Nil
  then show ?case by simp
next
  case (Cons x xs)
  then show ?case by (cases i) (auto split: sum.splits)
qed

lemma collect_map: "collect f (map h xs) = collect (\<lambda>x. f (h x)) xs"
  by (induction xs) (auto split: sum.splits)

lemma collect_post:
  "collect (\<lambda>x. case f x of Inl e \<Rightarrow> Inl e | Inr y \<Rightarrow> Inr (g y)) xs =
     (case collect f xs of Inl e \<Rightarrow> Inl e | Inr ys \<Rightarrow> Inr (map g ys))"
  by (induction xs) (auto split: sum.splits)

lemma collect_cong: "list_all (\<lambda>x. f x = g x) xs \<Longrightarrow> collect f xs = collect g xs"
  by (induction xs) (auto split: sum.splits)

lemma getitem_in_range:
  "i < length (samples ds) \<Longrightarrow>
     ImageList_getitem vis ds (int i) =
       (case image_open_rgb vis (samples ds ! i) of
          Inl e \<Rightarrow> Inl e
        | Inr img \<Rightarrow> Inr (transform vis img))"
  by (simp add: ImageList_getitem_def Let_def)

lemma collect_getitem:
  "collect (\<lambda>i. ImageList_getitem vis ds (int i)) [0..<length (samples ds)] =
     (case collect (image_open_rgb vis) (samples ds) of
        Inl e \<Rightarrow> Inl e
      | Inr pics \<Rightarrow> Inr (map (transform vis) pics))"
proof -
  have "collect (\<lambda>i. ImageList_getitem vis ds (int i)) [0..<length (samples ds)] =
        collect (\<lambda>i. case image_open_rgb vis (samples ds ! i) of
                        Inl e \<Rightarrow> Inl e | Inr img \<Rightarrow> Inr (transform vis img))
          [0..<length (samples ds)]"
    by (rule collect_cong) (simp add: list_all_iff getitem_in_range)
  also have "\<dots> = collect (\<lambda>p. case image_open_rgb vis p of
                        Inl e \<Rightarrow> Inl e | Inr img \<Rightarrow> Inr (transform vis img))
                  (map (\<lambda>i. samples ds ! i) [0..<length (samples ds)])"
    by (simp add: collect_map)
  also have "\<dots> = collect (\<lambda>p. case image_open_rgb vis p of
                        Inl e \<Rightarrow> Inl e | Inr img \<Rightarrow> Inr (transform vis img)) (samples ds)"
    by (simp add: map_nth)
  finally show ?thesis by (simp add: collect_post)
qed

text \<open>
  C10. For an image list with at least one row, a positive batch size and images that
  all open: the dataset has as many items as the file has rows; item \<open>i\<close> is the image
  named in the first field of row \<open>i\<close>, resized to 112 by 112, converted to a tensor
  and normalised with mean 0.5 and standard deviation 0.5 in each channel, with no
  label; and the loader yields these items in the order of the file, none dropped, in
  batches of at most the batch size.
\<close>

theorem prediction_loader_in_file_order:
  assumes "image_names \<noteq> []" and "0 < bsize"
    and "collect (\<lambda>r. image_open_rgb vis (path_join source (fst r))) image_names = Inr pics"
  shows "\<exists>ds batches.
           ImageList source image_names = Inr ds
           \<and> ImageList_len ds = length image_names
           \<and> (\<forall>i < length image_names.
                 ImageList_getitem vis ds (int i) =
                   Inr (normalize_tensor [1 / 2, 1 / 2, 1 / 2] [1 / 2, 1 / 2, 1 / 2]
                          (to_tensor vis (resize vis (112, 112) (pics ! i)))))
           \<and> PredictionDataLoader vis bsize workers source image_names permutation = Inr batches
           \<and> concat batches = map (transform vis) pics
           \<and> length (concat batches) = length image_names
           \<and> list_all (\<lambda>b. b \<noteq> [] \<and> length b \<le> bsize) batches"
proof -
  define ds where "ds = \<lparr>samples = map (\<lambda>r. path_join source (fst r)) image_names\<rparr>"
  have il: "ImageList source image_names = Inr ds"
    using assms(1) by (simp add: ImageList_def ds_def)
  have len: "ImageList_len ds = length image_names"
    by (simp add: ImageList_len_def ds_def)
  have opened: "collect (image_open_rgb vis) (samples ds) = Inr pics"
    using assms(3) by (simp add: ds_def collect_map)
  have plen: "length pics = length image_names"
    using collect_length [OF opened] by (simp add: ds_def)
  have items: "collect (\<lambda>i. ImageList_getitem vis ds (int i)) [0..<length (samples ds)]
                 = Inr (map (transform vis) pics)"
    by (simp add: collect_getitem opened)
  have item: "ImageList_getitem vis ds (int i) = Inr (transform vis (pics ! i))"
    if "i < length image_names" for i
    using collect_nth [OF items, of i] that plen by (simp add: ds_def)
  define batches where "batches = chunks bsize (map (transform vis) pics)"
  have dl: "PredictionDataLoader vis bsize workers source image_names permutation = Inr batches"
    using assms(2) collect_chunks [OF items, of bsize]
    by (simp add: PredictionDataLoader_def il DataLoader_def batch_sampler_def sampler_def
          ImageList_len_def batches_def)
  have cc: "concat batches = map (transform vis) pics"
    unfolding batches_def by (rule concat_chunks [OF assms(2)])
  have sz: "list_all (\<lambda>b. b \<noteq> [] \<and> length b \<le> bsize) batches"
    unfolding batches_def by (rule chunks_sizes [OF assms(2)])
  show ?thesis
    using il len item dl cc sz plen by (auto simp: transform_def)
qed

theorem prediction_loader_in_file_order_witness:
  "example_rows \<noteq> [] \<and>
   (\<exists>ds batches.
      ImageList ''faces'' example_rows = Inr ds
      \<and> ImageList_len ds = 4
      \<and> ImageList_getitem example_vision ds 2 = Inr [[[19]], [[1]], [[- 1]]]
      \<and> PredictionDataLoader example_vision 3 0 ''faces'' example_rows [] = Inr batches
      \<and> concat batches =
           [[[[21]], [[1]], [[- 1]]], [[[21]], [[1]], [[- 1]]], [[[19]], [[1]], [[- 1]]],
            [[[21]], [[1]], [[- 1]]]])"
proof -
  have a: "example_rows \<noteq> []" by (simp add: example_rows_def)
  have b: "0 < (3::nat)" by simp
  have c: "collect (\<lambda>r. image_open_rgb example_vision (path_join ''faces'' (fst r))) example_rows
             = Inr [''faces/a.jpg'', ''faces/b.jpg'', ''/abs/c.jpg'', ''faces/d.jpg'']"
    by (simp add: example_rows_def example_vision_def path_join_def)
  have t: "map (transform example_vision)
             [''faces/a.jpg'', ''faces/b.jpg'', ''/abs/c.jpg'', ''faces/d.jpg''] =
           [[[[21]], [[1]], [[- 1]]], [[[21]], [[1]], [[- 1]]], [[[19]], [[1]], [[- 1]]],
            [[[21]], [[1]], [[- 1]]]]"
    by (simp add: transform_def normalize_tensor_def example_vision_def)
  have l: "length example_rows = 4" by (simp add: example_rows_def)
  from prediction_loader_in_file_order [OF a b c, of 0 "[]"]
  obtain ds batches where
    r: "ImageList ''faces'' example_rows = Inr ds" "ImageList_len ds = length example_rows"
      "\<forall>i<length example_rows.
         ImageList_getitem example_vision ds (int i) =
           Inr (normalize_tensor [1 / 2, 1 / 2, 1 / 2] [1 / 2, 1 / 2, 1 / 2]
                 (to_tensor example_vision (resize example_vision (112, 112)
                    ([''faces/a.jpg'', ''faces/b.jpg'', ''/abs/c.jpg'', ''faces/d.jpg''] ! i))))"
      "PredictionDataLoader example_vision 3 0 ''faces'' example_rows [] = Inr batches"
      "concat batches = map (transform example_vision)
             [''faces/a.jpg'', ''faces/b.jpg'', ''/abs/c.jpg'', ''faces/d.jpg'']"
    by blast
  from r(3) [rule_format, of 2] l
  have "ImageList_getitem example_vision ds (int 2) =
           Inr (normalize_tensor [1 / 2, 1 / 2, 1 / 2] [1 / 2, 1 / 2, 1 / 2]
                 (to_tensor example_vision (resize example_vision (112, 112)
                    ([''faces/a.jpg'', ''faces/b.jpg'', ''/abs/c.jpg'', ''faces/d.jpg''] ! 2))))"
    by simp
  then have g: "ImageList_getitem example_vision ds 2 = Inr [[[19]], [[1]], [[- 1]]]"
    by (simp add: normalize_tensor_def example_vision_def)
  show ?thesis using a r(1,2,4,5) g l t by auto
qed

end
